theory Spec2Isabelle
  imports Complex_Main "HOL-Library.Word"
begin

unbundle bit_operations_syntax

section \<open>Values of the program\<close>

text \<open>
  The crash game keeps its amounts, multipliers and prices in JavaScript Numbers.  They
  are modelled as \<open>real\<close>: arithmetic is exact, and the rounding of IEEE doubles, NaN and
  the infinities are outside the model.  A field that may hold \<open>null\<close> is an \<open>option\<close>.
  Instants (\<open>Date\<close>, \<open>Date.now()\<close>) are milliseconds as \<open>int\<close>.  Strings are byte strings.
\<close>

type_synonym u8 = "8 word"
type_synonym u32 = "32 word"
type_synonym millis = int

datatype error =
    InvalidBetAmount            \<comment> \<open>\<open>'Invalid bet amount'\<close>\<close>
  | InvalidCurrency             \<comment> \<open>\<open>'Invalid currency'\<close>\<close>
  | NoRoundAcceptingBets        \<comment> \<open>\<open>'No active round accepting bets'\<close>\<close>
  | PriceUnavailable            \<comment> \<open>\<open>'Unable to get current crypto price'\<close>\<close>
  | InvalidAmountOrPrice        \<comment> \<open>\<open>'Invalid amount or price'\<close>\<close>
  | InsufficientBalance         \<comment> \<open>\<open>'Insufficient USD balance'\<close>\<close>
  | NoActiveRound               \<comment> \<open>\<open>'No active round for cashout'\<close>\<close>
  | NoActiveBet                 \<comment> \<open>\<open>'No active bet found for player'\<close>\<close>
  | PlayerNotFound              \<comment> \<open>\<open>'Player not found'\<close>\<close>
  | PlayerAlreadyExists         \<comment> \<open>\<open>'Player already exists'\<close>\<close>
  | DuplicateKey                \<comment> \<open>the store rejects a write that breaks a \<open>unique\<close> index\<close>
  | FailedToGenerateCrashPoint  \<comment> \<open>\<open>'Failed to generate crash point'\<close>\<close>

subsection \<open>\<open>parseFloat(x.toFixed(d))\<close>\<close>

text \<open>
  \<open>Number.prototype.toFixed\<close> takes the sign off, returns the plain decimal expansion of a
  magnitude of \<open>10^21\<close> or more, and otherwise picks the integer \<open>n\<close> with \<open>n / 10^d\<close>
  nearest to the magnitude, the larger one on a tie.  \<open>parseFloat\<close> reads the digits back.

  The definition rounds the exact real.  The code rounds the double it holds, which can lie
  just below a decimal tie that the exact value sits on, and is then rounded the other
  way: \<open>calculateMultiplier(105, 0.01)\<close> is 1.001 in the code and 1.0011 here.  The two
  agree wherever the exact value is not within the rounding error of a double of such a
  tie, as at every input evaluated below, and on every bound used below: a value of at
  least 1 is rounded to at least 1 by both.
\<close>

definition parseFloat_toFixed :: "nat \<Rightarrow> real \<Rightarrow> real" where
  "parseFloat_toFixed d x =
     (if 10 ^ 21 \<le> \<bar>x\<bar> then x
      else if x < 0 then - (of_int \<lfloor>(- x) * 10 ^ d + 1 / 2\<rfloor> / 10 ^ d)
      else of_int \<lfloor>x * 10 ^ d + 1 / 2\<rfloor> / 10 ^ d)"

subsection \<open>\<open>String.prototype.toLowerCase\<close> on ASCII\<close>

definition toLowerChar :: "char \<Rightarrow> char" where
  "toLowerChar c =
     (case map_of (zip ''ABCDEFGHIJKLMNOPQRSTUVWXYZ'' ''abcdefghijklmnopqrstuvwxyz'') c of
        Some l \<Rightarrow> l
      | None \<Rightarrow> c)"

definition toLowerCase :: "string \<Rightarrow> string" where
  "toLowerCase s = map toLowerChar s"

section \<open>The digest: SHA-256 of Node's \<open>crypto\<close> module\<close>

text \<open>
  \<open>crypto.createHash('sha256').update(s).digest('hex')\<close> is the SHA-256 of FIPS 180-4 over
  the bytes of \<open>s\<close>, printed as 64 lower-case hexadecimal digits.
\<close>

definition rotr :: "nat \<Rightarrow> u32 \<Rightarrow> u32" where
  "rotr n x = drop_bit n x OR push_bit (32 - n) x"

definition Ch :: "u32 \<Rightarrow> u32 \<Rightarrow> u32 \<Rightarrow> u32" where
  "Ch x y z = (x AND y) XOR (NOT x AND z)"

definition Maj :: "u32 \<Rightarrow> u32 \<Rightarrow> u32 \<Rightarrow> u32" where
  "Maj x y z = (x AND y) XOR (x AND z) XOR (y AND z)"

definition bsig0 :: "u32 \<Rightarrow> u32" where
  "bsig0 x = rotr 2 x XOR rotr 13 x XOR rotr 22 x"

definition bsig1 :: "u32 \<Rightarrow> u32" where
  "bsig1 x = rotr 6 x XOR rotr 11 x XOR rotr 25 x"

definition ssig0 :: "u32 \<Rightarrow> u32" where
  "ssig0 x = rotr 7 x XOR rotr 18 x XOR drop_bit 3 x"

definition ssig1 :: "u32 \<Rightarrow> u32" where
  "ssig1 x = rotr 17 x XOR rotr 19 x XOR drop_bit 10 x"

text \<open>The round constants: the first 32 fraction bits of the cube roots of the first 64 primes.\<close>

definition roundConstants :: "u32 list" where
  "roundConstants =
    [1116352408, 1899447441, 3049323471, 3921009573, 961987163, 1508970993,
     2453635748, 2870763221, 3624381080, 310598401, 607225278, 1426881987,
     1925078388, 2162078206, 2614888103, 3248222580, 3835390401, 4022224774,
     264347078, 604807628, 770255983, 1249150122, 1555081692, 1996064986,
     2554220882, 2821834349, 2952996808, 3210313671, 3336571891, 3584528711,
     113926993, 338241895, 666307205, 773529912, 1294757372, 1396182291,
     1695183700, 1986661051, 2177026350, 2456956037, 2730485921, 2820302411,
     3259730800, 3345764771, 3516065817, 3600352804, 4094571909, 275423344,
     430227734, 506948616, 659060556, 883997877, 958139571, 1322822218,
     1537002063, 1747873779, 1955562222, 2024104815, 2227730452, 2361852424,
     2428436474, 2756734187, 3204031479, 3329325298]"

type_synonym hstate = "u32 \<times> u32 \<times> u32 \<times> u32 \<times> u32 \<times> u32 \<times> u32 \<times> u32"

text \<open>The initial hash value: fraction bits of the square roots of the first 8 primes.\<close>

definition initialHash :: hstate where
  "initialHash =
    (1779033703, 3144134277, 1013904242, 2773480762,
     1359893119, 2600822924, 528734635, 1541459225)"

text \<open>Padding: the byte \<open>0x80\<close>, zero bytes up to 56 modulo 64, the bit length on 8 bytes.\<close>

definition lengthBytes :: "nat \<Rightarrow> u8 list" where
  "lengthBytes n =
     map (\<lambda>i. ucast (drop_bit (8 * i) (word_of_nat (8 * n) :: 64 word))) [7, 6, 5, 4, 3, 2, 1, 0]"

definition pad :: "u8 list \<Rightarrow> u8 list" where
  "pad m = m @ [128] @ replicate ((119 - length m mod 64) mod 64) 0 @ lengthBytes (length m)"

fun bigEndianWords :: "u8 list \<Rightarrow> u32 list" where
  "bigEndianWords (a # b # c # d # rest) =
     (push_bit 24 (ucast a) OR push_bit 16 (ucast b) OR push_bit 8 (ucast c) OR ucast d)
       # bigEndianWords rest"
| "bigEndianWords _ = []"

text \<open>The message schedule is built newest word first: \<open>ws ! 1\<close> is \<open>W(t-2)\<close>.\<close>

fun schedule :: "nat \<Rightarrow> u32 list \<Rightarrow> u32 list" where
  "schedule 0 ws = ws"
| "schedule (Suc n) ws =
     schedule n ((ssig1 (ws ! 1) + ws ! 6 + ssig0 (ws ! 14) + ws ! 15) # ws)"

fun round256 :: "hstate \<Rightarrow> u32 \<times> u32 \<Rightarrow> hstate" where
  "round256 (a, b, c, d, e, f, g, h) (k, w) =
     (let t1 = h + bsig1 e + Ch e f g + k + w;
          t2 = bsig0 a + Maj a b c
      in (t1 + t2, a, b, c, d + t1, e, f, g))"

fun addState :: "hstate \<Rightarrow> hstate \<Rightarrow> hstate" where
  "addState (a, b, c, d, e, f, g, h) (a', b', c', d', e', f', g', h') =
     (a + a', b + b', c + c', d + d', e + e', f + f', g + g', h + h')"

definition compress :: "hstate \<Rightarrow> u32 list \<Rightarrow> hstate" where
  "compress h block =
     addState h (foldl round256 h (zip roundConstants (rev (schedule 48 (rev block)))))"

fun blocks :: "nat \<Rightarrow> u32 list \<Rightarrow> u32 list list" where
  "blocks 0 ws = []"
| "blocks (Suc n) ws = take 16 ws # blocks n (drop 16 ws)"

fun stateBytes :: "hstate \<Rightarrow> u8 list" where
  "stateBytes (a, b, c, d, e, f, g, h) =
     concat (map (\<lambda>w. map (\<lambda>i. ucast (drop_bit (8 * i) w)) [3, 2, 1, 0]) [a, b, c, d, e, f, g, h])"

definition sha256 :: "u8 list \<Rightarrow> u8 list" where
  "sha256 m =
     (let ws = bigEndianWords (pad m)
      in stateBytes (foldl compress initialHash (blocks (length ws div 16) ws)))"

subsection \<open>Bytes and hexadecimal digits\<close>

definition bytesOf :: "string \<Rightarrow> u8 list" where
  "bytesOf s = map of_char s"

definition hexDigit :: "nat \<Rightarrow> char" where
  "hexDigit n = ''0123456789abcdef'' ! n"

definition toHex :: "u8 list \<Rightarrow> string" where
  "toHex bs = concat (map (\<lambda>b. [hexDigit (unat b div 16), hexDigit (unat b mod 16)]) bs)"

definition hexValue :: "char \<Rightarrow> nat option" where
  "hexValue c =
     map_of (zip ''0123456789abcdefABCDEF''
                 [0, 1, 2, 3, 4, 5, 6, 7, 8, 9, 10, 11, 12, 13, 14, 15, 10, 11, 12, 13, 14, 15]) c"

text \<open>\<open>Buffer.from(s, 'hex')\<close> decodes pairs of digits and stops at the first pair that is not one.\<close>

fun bufferFromHex :: "string \<Rightarrow> u8 list" where
  "bufferFromHex (c1 # c2 # rest) =
     (case (hexValue c1, hexValue c2) of
        (Some hi, Some lo) \<Rightarrow> of_nat (16 * hi + lo) # bufferFromHex rest
      | _ \<Rightarrow> [])"
| "bufferFromHex _ = []"

text \<open>\<open>buf.readUInt32BE(0)\<close> throws a RangeError on a buffer shorter than four bytes.\<close>

fun readUInt32BE :: "u8 list \<Rightarrow> int option" where
  "readUInt32BE (a # b # c # d # rest) =
     Some (uint a * 2 ^ 24 + uint b * 2 ^ 16 + uint c * 2 ^ 8 + uint d)"
| "readUInt32BE _ = None"

section \<open>\<open>utils/crypto.js\<close>: class CryptoUtils\<close>

record crashData =
  crashPoint :: real
  seed :: string
  hash :: string
  randomValue :: real

text \<open>
  \<open>parseFloat(process.env.MAX_CRASH_MULTIPLIER) || 100\<close>: the argument is what \<open>parseFloat\<close>
  returns for the environment variable, \<open>None\<close> for NaN (variable unset or not a number);
  NaN and 0 are falsy and give the default.
\<close>

definition maxCrashMultiplier :: "real option \<Rightarrow> real" where
  "maxCrashMultiplier env = (case env of None \<Rightarrow> 100 | Some v \<Rightarrow> if v = 0 then 100 else v)"

definition hashInput :: "string \<Rightarrow> string \<Rightarrow> string" where
  "hashInput sd roundId = sd @ ''-'' @ roundId"

definition generateCrashPoint :: "real option \<Rightarrow> string \<Rightarrow> string \<Rightarrow> error + crashData" where
  "generateCrashPoint env sd roundId =
     (let h = toHex (sha256 (bytesOf (hashInput sd roundId)));
          hashBytes = bufferFromHex (take 16 h)
      in case readUInt32BE hashBytes of
           None \<Rightarrow> Inl FailedToGenerateCrashPoint
         | Some n \<Rightarrow>
             let randomValue = real_of_int n / 2 ^ 32;
                 houseEdge = 1 / 100;
                 crashPoint = max 1 ((1 / (1 - randomValue)) * (1 - houseEdge));
                 maxCrash = maxCrashMultiplier env;
                 finalCrashPoint = min crashPoint maxCrash
             in Inr \<lparr>crashPoint = finalCrashPoint, seed = sd, hash = h,
                      randomValue = randomValue\<rparr>)"

definition verifyCrashPoint :: "real option \<Rightarrow> real \<Rightarrow> string \<Rightarrow> string \<Rightarrow> bool" where
  "verifyCrashPoint env candidate sd roundId =
     (case generateCrashPoint env sd roundId of
        Inl e \<Rightarrow> False
      | Inr generated \<Rightarrow> \<bar>crashPoint generated - candidate\<bar> < 1 / 1000)"

definition usdToCrypto :: "real \<Rightarrow> string \<Rightarrow> real \<Rightarrow> error + real" where
  "usdToCrypto usdAmount currency pricePerCrypto =
     (if usdAmount \<le> 0 \<or> pricePerCrypto \<le> 0 then Inl InvalidAmountOrPrice
      else Inr (parseFloat_toFixed 8 (usdAmount / pricePerCrypto)))"

definition calculateMultiplier :: "real \<Rightarrow> real \<Rightarrow> real" where
  "calculateMultiplier elapsedTime growthFactor =
     (let timeInSeconds = elapsedTime / 1000;
          multiplier = 1 + timeInSeconds * growthFactor
      in parseFloat_toFixed 4 multiplier)"

definition isValidCurrency :: "string \<Rightarrow> bool" where
  "isValidCurrency currency = (toLowerCase currency \<in> set [''btc'', ''eth''])"


section \<open>The crash point as the design describes it\<close>

text \<open>
  The design's generator in its own words: a fixed-width prefix of the digest read as an
  unsigned integer and normalised to \<open>r\<close>; \<open>max(1, (1 / (1 - r)) * (1 - houseEdge))\<close>;
  the clamp to the configured maximum.
\<close>

definition digestPrefixUniform :: "u8 list \<Rightarrow> real" where
  "digestPrefixUniform digest =
     real_of_int (uint (digest ! 0) * 2 ^ 24 + uint (digest ! 1) * 2 ^ 16
                  + uint (digest ! 2) * 2 ^ 8 + uint (digest ! 3)) / 2 ^ 32"

definition designCrashMultiplier :: "real \<Rightarrow> real \<Rightarrow> real \<Rightarrow> real" where
  "designCrashMultiplier houseEdge maximum r =
     min (max 1 ((1 / (1 - r)) * (1 - houseEdge))) maximum"

section \<open>\<open>models/GameRound.js\<close>\<close>

datatype status = Waiting | Active | Crashed | Completed

text \<open>
  \<open>betData\<close> is the object literal that bet placement builds; \<open>bet\<close> is the subdocument
  of \<open>betSchema\<close> that \<open>this.bets.push(betData)\<close> casts it to, with the schema's defaults.
\<close>

record betData =
  playerId :: string
  username :: string
  usdAmount :: real
  cryptoAmount :: real
  currency :: string
  priceAtTime :: real
  betTime :: millis

record bet = betData +
  cashoutMultiplier :: "real option"
  cashoutCryptoAmount :: "real option"
  cashoutUsdAmount :: "real option"
  isWinner :: bool
  cashoutTime :: "millis option"

definition castBet :: "betData \<Rightarrow> bet" where
  "castBet d =
     betData.extend d
       (bet.fields None None None False None)"

record gameRound =
  roundId :: string
  status :: status
  startTime :: millis
  endTime :: "millis option"
  crashPoint :: real
  seed :: string
  hash :: string
  maxMultiplier :: real
  bets :: "bet list"
  totalBets :: real
  totalCashouts :: real
  totalWinners :: nat
  totalLosers :: nat
  houseProfit :: real

text \<open>\<open>new GameRound({roundId, status: 'waiting', startTime, crashPoint, seed, hash})\<close>.\<close>

definition newGameRound :: "string \<Rightarrow> millis \<Rightarrow> crashData \<Rightarrow> gameRound" where
  "newGameRound rid now cd =
     \<lparr>roundId = rid, status = Waiting, startTime = now, endTime = None,
      crashPoint = crashData.crashPoint cd, seed = crashData.seed cd, hash = crashData.hash cd,
      maxMultiplier = 0, bets = [], totalBets = 0, totalCashouts = 0,
      totalWinners = 0, totalLosers = 0, houseProfit = 0\<rparr>"

text \<open>\<open>!b.cashoutMultiplier\<close>: JavaScript's \<open>!\<close> holds of \<open>null\<close> and of the number 0.\<close>

definition notValue :: "real option \<Rightarrow> bool" where
  "notValue v = (case v of None \<Rightarrow> True | Some x \<Rightarrow> x = 0)"

definition openBetOf :: "string \<Rightarrow> bet \<Rightarrow> bool" where
  "openBetOf pid b = (playerId b = pid \<and> notValue (cashoutMultiplier b))"

definition addBet :: "betData \<Rightarrow> gameRound \<Rightarrow> gameRound" where
  "addBet d r = r\<lparr>bets := bets r @ [castBet d], totalBets := totalBets r + usdAmount d\<rparr>"

text \<open>The assignments of \<open>processCashout\<close> to the bet that \<open>find\<close> returned.\<close>

definition cashoutBet :: "real \<Rightarrow> millis \<Rightarrow> bet \<Rightarrow> bet" where
  "cashoutBet multiplier now b =
     b\<lparr>cashoutMultiplier := Some multiplier,
       cashoutCryptoAmount := Some (cryptoAmount b * multiplier),
       cashoutUsdAmount := Some (cryptoAmount b * multiplier * priceAtTime b),
       isWinner := True,
       cashoutTime := Some now\<rparr>"

text \<open>
  \<open>find\<close> returns the first matching element of the array itself, so the assignments
  change the round's list at that position.
\<close>

fun cashoutFirst :: "string \<Rightarrow> real \<Rightarrow> millis \<Rightarrow> bet list \<Rightarrow> bet list" where
  "cashoutFirst pid multiplier now [] = []"
| "cashoutFirst pid multiplier now (b # bs) =
     (if openBetOf pid b then cashoutBet multiplier now b # bs
      else b # cashoutFirst pid multiplier now bs)"

definition processCashout :: "string \<Rightarrow> real \<Rightarrow> millis \<Rightarrow> gameRound \<Rightarrow> error + gameRound" where
  "processCashout pid multiplier now r =
     (case find (openBetOf pid) (bets r) of
        None \<Rightarrow> Inl NoActiveBet
      | Some b \<Rightarrow>
          Inr (r\<lparr>bets := cashoutFirst pid multiplier now (bets r),
                 totalCashouts := totalCashouts r + cryptoAmount b * multiplier * priceAtTime b,
                 totalWinners := totalWinners r + 1\<rparr>))"

definition finalizeRound :: "millis \<Rightarrow> gameRound \<Rightarrow> gameRound" where
  "finalizeRound now r =
     r\<lparr>status := Crashed,
       endTime := Some now,
       totalLosers := length (filter (\<lambda>b. notValue (cashoutMultiplier b)) (bets r)),
       houseProfit := totalBets r - totalCashouts r\<rparr>"

section \<open>\<open>models/Player.js\<close>\<close>

record wallet =
  btc :: real
  eth :: real
  usd :: real

record player =
  playerId :: string
  username :: string
  wallet :: wallet
  totalBets :: real
  totalWins :: real
  totalLosses :: real
  createdAt :: millis
  lastActive :: millis

text \<open>\<open>new Player({playerId, username})\<close>: every other field takes the schema's default.\<close>

definition newPlayer :: "string \<Rightarrow> string \<Rightarrow> millis \<Rightarrow> player" where
  "newPlayer pid uname now =
     \<lparr>playerId = pid, username = uname,
      wallet = \<lparr>btc = 0, eth = 0, usd = 1000\<rparr>,
      totalBets = 0, totalWins = 0, totalLosses = 0,
      createdAt = now, lastActive = now\<rparr>"

text \<open>The assignments of \<open>updateWallet\<close>; its \<open>this.save()\<close> is \<open>savePlayer\<close> below.\<close>

definition updateWallet :: "string \<Rightarrow> real \<Rightarrow> millis \<Rightarrow> player \<Rightarrow> player" where
  "updateWallet cur amount now p =
     (if cur = ''usd'' then p\<lparr>wallet := (wallet p)\<lparr>usd := usd (wallet p) + amount\<rparr>\<rparr>
      else if cur = ''btc'' then p\<lparr>wallet := (wallet p)\<lparr>btc := btc (wallet p) + amount\<rparr>\<rparr>
      else if cur = ''eth'' then p\<lparr>wallet := (wallet p)\<lparr>eth := eth (wallet p) + amount\<rparr>\<rparr>
      else p)
     \<lparr>lastActive := now\<rparr>"

subsection \<open>The Player collection\<close>

text \<open>
  The collection is the list of stored players.  \<open>playerId\<close> and \<open>username\<close> are declared
  \<open>unique\<close>: the store rejects the insertion of a document that repeats either.  Saving a
  document that was read from the collection replaces the stored one.  No other failure of
  the store (validation, connection) is modelled.
\<close>

definition findPlayer :: "string \<Rightarrow> player list \<Rightarrow> player option" where
  "findPlayer pid ps = find (\<lambda>p. player.playerId p = pid) ps"

definition savePlayer :: "bool \<Rightarrow> player \<Rightarrow> player list \<Rightarrow> error + player list" where
  "savePlayer isNew p ps =
     (if isNew then
        (if list_ex (\<lambda>q. player.playerId q = player.playerId p
                         \<or> player.username q = player.username p) ps
         then Inl DuplicateKey
         else Inr (ps @ [p]))
      else Inr (map (\<lambda>q. if player.playerId q = player.playerId p then p else q) ps))"

section \<open>\<open>models/Transaction.js\<close>\<close>

datatype transactionType = BetTx | CashoutTx | DepositTx | WithdrawalTx

record transaction =
  transactionId :: string
  playerId :: string
  username :: string
  transactionType :: transactionType
  roundId :: "string option"
  currency :: string
  usdAmount :: real
  cryptoAmount :: real
  priceAtTime :: real
  multiplier :: "real option"
  transactionHash :: string
  balanceBefore :: wallet
  balanceAfter :: wallet
  timestamp :: millis

text \<open>\<open>transactionId\<close> is \<open>unique\<close>: the store rejects a second document with the same one.\<close>

definition saveTransaction :: "transaction \<Rightarrow> transaction list \<Rightarrow> error + transaction list" where
  "saveTransaction t ts =
     (if list_ex (\<lambda>u. transactionId u = transactionId t) ts then Inl DuplicateKey
      else Inr (ts @ [t]))"


section \<open>\<open>services/GameService.js\<close>\<close>

text \<open>
  The state that bet placement and cashout touch: the round the service holds in
  \<open>this.currentRound\<close>, its growth factor, and the Player and Transaction collections.
  What a call reads from outside is an argument: the clock (\<open>Date.now()\<close>), the prices
  that \<open>cryptoApi.getAllPrices()\<close> returned (\<open>None\<close> for a currency it has no entry for),
  and the random identifier and hash of the transaction record.
\<close>

record world =
  currentRound :: "gameRound option"
  growthFactor :: real
  players :: "player list"
  transactions :: "transaction list"

definition startNewRound :: "real option \<Rightarrow> string \<Rightarrow> string \<Rightarrow> millis \<Rightarrow> world \<Rightarrow> world" where
  "startNewRound env rid sd now w =
     (case generateCrashPoint env sd rid of
        Inl e \<Rightarrow> w
      | Inr crashData \<Rightarrow> w\<lparr>currentRound := Some (newGameRound rid now crashData)\<rparr>)"

definition activateRound :: "world \<Rightarrow> world" where
  "activateRound w =
     (case currentRound w of
        None \<Rightarrow> w
      | Some r \<Rightarrow>
          if status r \<noteq> Waiting then w
          else w\<lparr>currentRound := Some (r\<lparr>status := Active\<rparr>)\<rparr>)"

definition crashRound :: "millis \<Rightarrow> world \<Rightarrow> world" where
  "crashRound now w =
     (case currentRound w of
        None \<Rightarrow> w
      | Some r \<Rightarrow>
          if status r \<noteq> Active then w
          else w\<lparr>currentRound := Some (finalizeRound now r)\<rparr>)"

text \<open>
  \<open>placeBet\<close> returns \<open>betData\<close> and \<open>playerBalance\<close>, or throws.  The state is returned
  in both cases: what was written before a throw stays written.
\<close>

definition betTransaction ::
  "string \<Rightarrow> string \<Rightarrow> millis \<Rightarrow> string \<Rightarrow> betData \<Rightarrow> player \<Rightarrow> transaction" where
  "betTransaction txId txHash now rid d p =
     \<lparr>transactionId = txId,
      playerId = betData.playerId d,
      username = betData.username d,
      transactionType = BetTx,
      roundId = Some rid,
      currency = betData.currency d,
      usdAmount = betData.usdAmount d,
      cryptoAmount = betData.cryptoAmount d,
      priceAtTime = betData.priceAtTime d,
      multiplier = None,
      transactionHash = txHash,
      balanceBefore = (wallet p)\<lparr>usd := usd (wallet p) + betData.usdAmount d\<rparr>,
      balanceAfter = wallet p,
      timestamp = now\<rparr>"

definition placeBet ::
  "(string \<Rightarrow> real option) \<Rightarrow> millis \<Rightarrow> string \<Rightarrow> string \<Rightarrow>
   string \<Rightarrow> string \<Rightarrow> real \<Rightarrow> string \<Rightarrow> world \<Rightarrow> (error + betData \<times> wallet) \<times> world" where
  "placeBet prices now txId txHash pid uname amount cur w =
     (if amount \<le> 0 then (Inl InvalidBetAmount, w)
      else if \<not> isValidCurrency cur then (Inl InvalidCurrency, w)
      else case currentRound w of
        None \<Rightarrow> (Inl NoRoundAcceptingBets, w)
      | Some r \<Rightarrow>
          if status r \<noteq> Waiting then (Inl NoRoundAcceptingBets, w)
          else case prices (toLowerCase cur) of
            None \<Rightarrow> (Inl PriceUnavailable, w)
          | Some pricePerCrypto \<Rightarrow>
              if pricePerCrypto \<le> 0 then (Inl PriceUnavailable, w)
              else case usdToCrypto amount cur pricePerCrypto of
                Inl e \<Rightarrow> (Inl e, w)
              | Inr crypto \<Rightarrow>
                  let found = findPlayer pid (players w);
                      isNew = (found = None);
                      p = (case found of None \<Rightarrow> newPlayer pid uname now | Some q \<Rightarrow> q)
                  in if usd (wallet p) < amount then (Inl InsufficientBalance, w)
                     else
                       let d = \<lparr>betData.playerId = pid, betData.username = uname,
                                betData.usdAmount = amount, betData.cryptoAmount = crypto,
                                betData.currency = toLowerCase cur,
                                betData.priceAtTime = pricePerCrypto, betTime = now\<rparr>;
                           w1 = w\<lparr>currentRound := Some (addBet d r)\<rparr>;
                           p1 = updateWallet ''usd'' (- amount) now p
                       in case savePlayer isNew p1 (players w1) of
                            Inl e \<Rightarrow> (Inl e, w1)
                          | Inr ps1 \<Rightarrow>
                              let w2 = w1\<lparr>players := ps1\<rparr>;
                                  t = betTransaction txId txHash now (gameRound.roundId r) d p1
                              in case saveTransaction t (transactions w2) of
                                   Inl e \<Rightarrow> (Inl e, w2)
                                 | Inr ts \<Rightarrow>
                                     let w3 = w2\<lparr>transactions := ts\<rparr>;
                                         p2 = p1\<lparr>player.totalBets := player.totalBets p1 + amount\<rparr>
                                     in case savePlayer False p2 (players w3) of
                                          Inl e \<Rightarrow> (Inl e, w3)
                                        | Inr ps2 \<Rightarrow>
                                            (Inr (d, wallet p2), w3\<lparr>players := ps2\<rparr>))"

text \<open>
  \<open>processCashout\<close> of the service.  \<open>activeBet\<close> is the element of the round's list that
  the round's own \<open>processCashout\<close> then assigns to, so \<open>activeBet.cashoutUsdAmount\<close> is
  read after that assignment.  The result is \<open>multiplier\<close>, \<open>payoutCrypto\<close>,
  \<open>payoutUsd\<close> and \<open>playerBalance\<close>.
\<close>

definition cashoutTransaction ::
  "string \<Rightarrow> string \<Rightarrow> millis \<Rightarrow> string \<Rightarrow> string \<Rightarrow> string \<Rightarrow> bet \<Rightarrow> real \<Rightarrow> player
     \<Rightarrow> transaction" where
  "cashoutTransaction txId txHash now rid pid uname b m p =
     \<lparr>transactionId = txId,
      playerId = pid,
      username = uname,
      transactionType = CashoutTx,
      roundId = Some rid,
      currency = betData.currency b,
      usdAmount = betData.cryptoAmount b * m * betData.priceAtTime b,
      cryptoAmount = betData.cryptoAmount b * m,
      priceAtTime = betData.priceAtTime b,
      multiplier = Some m,
      transactionHash = txHash,
      balanceBefore = wallet p,
      balanceAfter = wallet p,
      timestamp = now\<rparr>"

definition GameService_processCashout ::
  "millis \<Rightarrow> string \<Rightarrow> string \<Rightarrow> string \<Rightarrow> string \<Rightarrow> world
     \<Rightarrow> (error + real \<times> real \<times> real \<times> wallet) \<times> world" where
  "GameService_processCashout now txId txHash pid uname w =
     (case currentRound w of
        None \<Rightarrow> (Inl NoActiveRound, w)
      | Some r \<Rightarrow>
          if status r \<noteq> Active then (Inl NoActiveRound, w)
          else case find (openBetOf pid) (bets r) of
            None \<Rightarrow> (Inl NoActiveBet, w)
          | Some activeBet \<Rightarrow>
              let elapsedTime = now - startTime r;
                  currentMultiplier = calculateMultiplier (real_of_int elapsedTime) (growthFactor w)
              in case processCashout pid currentMultiplier now r of
                   Inl e \<Rightarrow> (Inl e, w)
                 | Inr r1 \<Rightarrow>
                     let w1 = w\<lparr>currentRound := Some r1\<rparr>
                     in case findPlayer pid (players w1) of
                          None \<Rightarrow> (Inl PlayerNotFound, w1)
                        | Some p \<Rightarrow>
                            let payoutCrypto = betData.cryptoAmount activeBet * currentMultiplier;
                                payoutUsd = betData.cryptoAmount activeBet * currentMultiplier
                                              * betData.priceAtTime activeBet;
                                p1 = updateWallet (betData.currency activeBet) payoutCrypto now p
                            in case savePlayer False p1 (players w1) of
                                 Inl e \<Rightarrow> (Inl e, w1)
                               | Inr ps1 \<Rightarrow>
                                   let p2 = p1\<lparr>totalWins := totalWins p1 + payoutUsd\<rparr>
                                   in case savePlayer False p2 ps1 of
                                        Inl e \<Rightarrow> (Inl e, w1\<lparr>players := ps1\<rparr>)
                                      | Inr ps2 \<Rightarrow>
                                          let w2 = w1\<lparr>players := ps2\<rparr>;
                                              t = cashoutTransaction txId txHash now
                                                    (gameRound.roundId r) pid uname activeBet
                                                    currentMultiplier p2
                                          in case saveTransaction t (transactions w2) of
                                               Inl e \<Rightarrow> (Inl e, w2)
                                             | Inr ts \<Rightarrow>
                                                 (Inr (currentMultiplier, payoutCrypto, payoutUsd,
                                                       wallet p2),
                                                  w2\<lparr>transactions := ts\<rparr>))"

section \<open>The wallet router: \<open>POST /api/wallet/create\<close>\<close>

text \<open>
  The handler validates the body (\<open>playerId\<close> and \<open>username\<close> are required strings, and
  an empty string is not one), refuses a player whose id or name is taken, and stores a
  new player.  It answers the stored player, or an error.
\<close>

datatype httpError = Status400 error | Status400_validation | Status500 error

definition walletCreate :: "millis \<Rightarrow> string \<Rightarrow> string \<Rightarrow> player list \<Rightarrow> (httpError + player) \<times> player list" where
  "walletCreate now pid uname ps =
     (if pid = [] \<or> uname = [] then (Inl Status400_validation, ps)
      else if find (\<lambda>q. player.playerId q = pid \<or> player.username q = uname) ps \<noteq> None
        then (Inl (Status400 PlayerAlreadyExists), ps)
      else let p = newPlayer pid uname now
           in case savePlayer True p ps of
                Inl e \<Rightarrow> (Inl (Status500 e), ps)
              | Inr ps1 \<Rightarrow> (Inr p, ps1))"


section \<open>Notions the claims are stated with\<close>

text \<open>The sum of \<open>usdAmount\<close> over a round's bets, and the invariant that ties \<open>totalBets\<close> to it.\<close>

definition totalBetsInvariant :: "gameRound \<Rightarrow> bool" where
  "totalBetsInvariant r = (gameRound.totalBets r = sum_list (map betData.usdAmount (bets r)))"

text \<open>
  The USD balance that bet placement checks the stake against: the stored player's, or that
  of the player it creates when the id is unknown.
\<close>

definition availableUsd :: "string \<Rightarrow> string \<Rightarrow> millis \<Rightarrow> player list \<Rightarrow> real" where
  "availableUsd pid uname now ps =
     (case findPlayer pid ps of
        None \<Rightarrow> usd (wallet (newPlayer pid uname now))
      | Some p \<Rightarrow> usd (wallet p))"


section \<open>Scenarios\<close>

text \<open>
  One round \<open>r1\<close> created at instant 1700000000000 (milliseconds since the epoch) with
  crash point 2.5, growth factor 0.01, the
  prices 10000 for \<open>btc\<close> and 2000 for \<open>eth\<close>, and one stored player \<open>p1\<close> named
  \<open>alice\<close> with the given USD balance.
\<close>

definition scenarioCrash :: crashData where
  "scenarioCrash =
     \<lparr>crashData.crashPoint = 5 / 2, crashData.seed = ''5eed'', crashData.hash = ''d1935t'',
      randomValue = 151 / 250\<rparr>"

definition scenarioPrices :: "string \<Rightarrow> real option" where
  "scenarioPrices c = (if c = ''btc'' then Some 10000 else if c = ''eth'' then Some 2000 else None)"

definition scenarioWorld :: "status \<Rightarrow> real \<Rightarrow> world" where
  "scenarioWorld st balance =
     \<lparr>currentRound = Some ((newGameRound ''r1'' 1700000000000 scenarioCrash)\<lparr>status := st\<rparr>),
      growthFactor = 1 / 100,
      players = [(newPlayer ''p1'' ''alice'' 1699999000000)\<lparr>wallet := \<lparr>btc = 0, eth = 0, usd = balance\<rparr>\<rparr>],
      transactions = []\<rparr>"

text \<open>\<open>alice\<close> holds 100 USD, wagers 10 in \<open>btc\<close> 500 ms later, and the round is activated.\<close>

definition oneWagerWorld :: world where
  "oneWagerWorld =
     activateRound
       (snd (placeBet scenarioPrices 1700000000500 ''t1'' ''h1'' ''p1'' ''alice'' 10 ''btc''
               (scenarioWorld Waiting 100)))"

text \<open>The same, with a second wager of 20 a further 100 ms later, before the activation.\<close>

definition twoWagerWorld :: world where
  "twoWagerWorld =
     activateRound
       (snd (placeBet scenarioPrices 1700000000600 ''t2'' ''h2'' ''p1'' ''alice'' 20 ''btc''
          (snd (placeBet scenarioPrices 1700000000500 ''t1'' ''h1'' ''p1'' ''alice'' 10 ''btc''
                  (scenarioWorld Waiting 100)))))"

text \<open>The wager of the scenario as the round stores it: 10 USD at rate 10000.\<close>

definition scenarioBet :: betData where
  "scenarioBet =
     \<lparr>betData.playerId = ''p1'', betData.username = ''alice'', betData.usdAmount = 10,
      betData.cryptoAmount = 1 / 1000, betData.currency = ''btc'',
      betData.priceAtTime = 10000, betTime = 1700000000500\<rparr>"


section \<open>Facts about the digest and its hexadecimal form\<close>

lemma hexValue_hexDigit_all: "list_all (\<lambda>n. hexValue (hexDigit n) = Some n) [0..<16]"
  by code_simp

lemma hexValue_hexDigit: "n < 16 \<Longrightarrow> hexValue (hexDigit n) = Some n"
  using hexValue_hexDigit_all by (simp add: list_all_iff)

lemma toHex_Cons:
  "toHex (b # bs) = hexDigit (unat b div 16) # hexDigit (unat b mod 16) # toHex bs"
  by (simp add: toHex_def)

lemma byte_of_digits: "of_nat (16 * (unat b div 16) + unat b mod 16) = (b :: u8)"
proof -
  have "16 * (unat b div 16) + unat b mod 16 = unat b"
    by (rule mult_div_mod_eq)
  then have "of_nat (16 * (unat b div 16) + unat b mod 16) = (of_nat (unat b) :: u8)"
    by (rule arg_cong)
  also have "(of_nat (unat b) :: u8) = b"
    by simp
  finally show ?thesis .
qed

lemma unat_byte_less: "unat (b :: u8) < 256"
proof -
  have "unat b < 2 ^ LENGTH(8)" by (rule unsigned_less)
  then show ?thesis by simp
qed

lemma nibbles_less: "unat (b :: u8) div 16 < 16" "unat (b :: u8) mod 16 < 16"
  using unat_byte_less [of b] by simp_all

lemma bufferFromHex_toHex_Nil: "bufferFromHex (toHex []) = []"
  by (simp add: toHex_def)

lemma bufferFromHex_toHex: "bufferFromHex (toHex bs) = bs"
proof (induction bs)
  case Nil
  show ?case by (rule bufferFromHex_toHex_Nil)
next
  case (Cons b bs)
  have hi: "hexValue (hexDigit (unat b div 16)) = Some (unat b div 16)"
    and lo: "hexValue (hexDigit (unat b mod 16)) = Some (unat b mod 16)"
    by (simp_all only: hexValue_hexDigit nibbles_less)
  show ?case
    by (simp only: toHex_Cons bufferFromHex.simps hi lo prod.case option.case
        byte_of_digits Cons.IH)
qed

lemma take_toHex: "take (2 * k) (toHex bs) = toHex (take k bs)"
proof (induction bs arbitrary: k)
  case Nil
  then show ?case by (simp add: toHex_def)
next
  case (Cons b bs)
  then show ?case by (cases k) (simp_all add: toHex_def)
qed

lemma length_stateBytes: "length (stateBytes s) = 32"
  by (cases s rule: stateBytes.cases) simp

lemma length_sha256: "length (sha256 m) = 32"
  by (simp add: sha256_def Let_def length_stateBytes)

lemma hashBytes_digest: "bufferFromHex (take 16 (toHex (sha256 m))) = take 8 (sha256 m)"
  using take_toHex [of 8 "sha256 m"] by (simp add: bufferFromHex_toHex)

lemma readUInt32BE_take8:
  "32 \<le> length d \<Longrightarrow>
   readUInt32BE (take 8 d) =
     Some (uint (d ! 0) * 2 ^ 24 + uint (d ! 1) * 2 ^ 16 + uint (d ! 2) * 2 ^ 8 + uint (d ! 3))"
proof -
  assume len: "32 \<le> length d"
  then obtain a b c e rest where d: "d = a # b # c # e # rest"
    by (cases d rule: readUInt32BE.cases) simp_all
  have "0 < (8::nat)" by simp
  show ?thesis
    unfolding d by (simp add: numeral_eq_Suc)
qed

lemma bigEndian32_range:
  fixes a b c e :: u8
  shows "0 \<le> uint a * 2 ^ 24 + uint b * 2 ^ 16 + uint c * 2 ^ 8 + uint e"
    and "uint a * 2 ^ 24 + uint b * 2 ^ 16 + uint c * 2 ^ 8 + uint e < 2 ^ 32"
proof -
  have up: "uint a \<le> 255" "uint b \<le> 255" "uint c \<le> 255" "uint e \<le> 255"
    using uint_lt2p [of a] uint_lt2p [of b] uint_lt2p [of c] uint_lt2p [of e] by simp_all
  have lo: "0 \<le> uint a" "0 \<le> uint b" "0 \<le> uint c" "0 \<le> uint e"
    by simp_all
  have p: "(2::int) ^ 24 = 16777216" "(2::int) ^ 16 = 65536" "(2::int) ^ 8 = 256"
    "(2::int) ^ 32 = 4294967296"
    by simp_all
  show "0 \<le> uint a * 2 ^ 24 + uint b * 2 ^ 16 + uint c * 2 ^ 8 + uint e"
    unfolding p using lo by linarith
  show "uint a * 2 ^ 24 + uint b * 2 ^ 16 + uint c * 2 ^ 8 + uint e < 2 ^ 32"
    unfolding p using up lo by linarith
qed

lemma digestPrefixUniform_range: "0 \<le> digestPrefixUniform d \<and> digestPrefixUniform d < 1"
proof -
  let ?n = "uint (d ! 0) * 2 ^ 24 + uint (d ! 1) * 2 ^ 16 + uint (d ! 2) * 2 ^ 8 + uint (d ! 3)"
  have n: "0 \<le> ?n" "?n < 2 ^ 32"
    by (rule bigEndian32_range)+
  have "real_of_int ?n < real_of_int (2 ^ 32)"
    using n(2) by (simp only: of_int_less_iff)
  then have "real_of_int ?n / 2 ^ 32 < 1" by simp
  moreover have "0 \<le> real_of_int ?n / 2 ^ 32"
    using n(1) by (simp only: zero_le_divide_iff of_int_0_le_iff) simp
  ultimately show ?thesis by (simp only: digestPrefixUniform_def)
qed

lemma generateCrashPoint_eq:
  "generateCrashPoint env sd rid =
     Inr \<lparr>crashData.crashPoint =
            designCrashMultiplier (1 / 100) (maxCrashMultiplier env)
              (digestPrefixUniform (sha256 (bytesOf (hashInput sd rid)))),
          crashData.seed = sd,
          crashData.hash = toHex (sha256 (bytesOf (hashInput sd rid))),
          randomValue = digestPrefixUniform (sha256 (bytesOf (hashInput sd rid)))\<rparr>"
proof -
  let ?d = "sha256 (bytesOf (hashInput sd rid))"
  have "readUInt32BE (bufferFromHex (take 16 (toHex ?d))) =
      Some (uint (?d ! 0) * 2 ^ 24 + uint (?d ! 1) * 2 ^ 16 + uint (?d ! 2) * 2 ^ 8 + uint (?d ! 3))"
    by (simp only: hashBytes_digest readUInt32BE_take8 length_sha256 order_refl)
  then show ?thesis
    by (simp only: generateCrashPoint_def Let_def option.case designCrashMultiplier_def
        digestPrefixUniform_def)
qed

lemma designCrashMultiplier_range:
  "0 \<le> r \<Longrightarrow> r < 1 \<Longrightarrow> 1 \<le> maximum \<Longrightarrow>
   1 \<le> designCrashMultiplier houseEdge maximum r \<and> designCrashMultiplier houseEdge maximum r \<le> maximum"
  by (simp add: designCrashMultiplier_def)

section \<open>Facts about the collections and bet placement\<close>

lemma savePlayer_existing:
  "savePlayer False p ps = Inr (map (\<lambda>q. if player.playerId q = player.playerId p then p else q) ps)"
  by (simp add: savePlayer_def)

lemma savePlayer_error: "savePlayer isNew p ps = Inl e \<Longrightarrow> e = DuplicateKey"
  by (auto simp add: savePlayer_def split: if_splits)

lemma saveTransaction_error: "saveTransaction t ts = Inl e \<Longrightarrow> e = DuplicateKey"
  by (auto simp add: saveTransaction_def split: if_splits)

lemma saveTransaction_ok: "saveTransaction t ts = Inr ts' \<Longrightarrow> ts' = ts @ [t]"
  by (auto simp add: saveTransaction_def split: if_splits)

lemma savePlayer_new_ok: "savePlayer True p ps = Inr ps' \<Longrightarrow> ps' = ps @ [p]"
  by (auto simp add: savePlayer_def split: if_splits)

lemma placeBet_check_failure:
  assumes "placeBet prices now txId txHash pid uname amount cur w = (Inl e, w')"
    and "e \<noteq> DuplicateKey"
  shows "w' = w"
  using assms
  by (auto simp add: placeBet_def Let_def savePlayer_existing usdToCrypto_def
      split: if_splits option.splits sum.splits
      dest: savePlayer_error saveTransaction_error)

lemma findPlayer_append_new:
  "findPlayer pid ps = None \<Longrightarrow> player.playerId p = pid \<Longrightarrow> findPlayer pid (ps @ [p]) = Some p"
  by (induction ps) (auto simp add: findPlayer_def split: if_splits)

lemma findPlayer_replace:
  "findPlayer pid ps = Some q \<Longrightarrow> player.playerId p = pid \<Longrightarrow>
   findPlayer pid (map (\<lambda>q. if player.playerId q = pid then p else q) ps) = Some p"
  by (induction ps) (auto simp add: findPlayer_def split: if_splits)

lemma playerId_updateWallet [simp]:
  "player.playerId (updateWallet c a now p) = player.playerId p"
  by (simp add: updateWallet_def)

lemma findPlayer_playerId: "findPlayer pid ps = Some q \<Longrightarrow> player.playerId q = pid"
  by (induction ps) (auto simp add: findPlayer_def split: if_splits)

lemma wallet_updateWallet_usd [simp]:
  "wallet (updateWallet ''usd'' a now p) = (wallet p)\<lparr>usd := usd (wallet p) + a\<rparr>"
  by (simp add: updateWallet_def)

lemma findPlayer_savePlayer:
  assumes "savePlayer isNew p ps = Inr ps'"
    and "isNew \<longleftrightarrow> findPlayer (player.playerId p) ps = None"
  shows "findPlayer (player.playerId p) ps' = Some p"
proof (cases isNew)
  case True
  with assms show ?thesis
    by (auto dest!: savePlayer_new_ok intro: findPlayer_append_new)
next
  case False
  with assms obtain q where "findPlayer (player.playerId p) ps = Some q" by auto
  with False assms(1) show ?thesis
    by (auto simp add: savePlayer_existing intro: findPlayer_replace)
qed

lemma placeBet_Inr:
  assumes ok: "placeBet prices now txId txHash pid uname amount cur w = (Inr (d, bal), w')"
  shows "\<exists>r price ps1 ts ps2 p0.
      0 < amount \<and> isValidCurrency cur \<and> currentRound w = Some r \<and> status r = Waiting
      \<and> prices (toLowerCase cur) = Some price \<and> 0 < price
      \<and> p0 = (case findPlayer pid (players w) of None \<Rightarrow> newPlayer pid uname now | Some q \<Rightarrow> q)
      \<and> \<not> usd (wallet p0) < amount
      \<and> d = \<lparr>betData.playerId = pid, betData.username = uname, betData.usdAmount = amount,
               betData.cryptoAmount = parseFloat_toFixed 8 (amount / price),
               betData.currency = toLowerCase cur, betData.priceAtTime = price, betTime = now\<rparr>
      \<and> savePlayer (findPlayer pid (players w) = None) (updateWallet ''usd'' (- amount) now p0)
            (players w) = Inr ps1
      \<and> saveTransaction
            (betTransaction txId txHash now (gameRound.roundId r) d
               (updateWallet ''usd'' (- amount) now p0)) (transactions w) = Inr ts
      \<and> savePlayer False
            ((updateWallet ''usd'' (- amount) now p0)
               \<lparr>player.totalBets := player.totalBets (updateWallet ''usd'' (- amount) now p0) + amount\<rparr>)
            ps1 = Inr ps2
      \<and> bal = wallet (updateWallet ''usd'' (- amount) now p0)
      \<and> w' = w\<lparr>currentRound := Some (addBet d r), players := ps2, transactions := ts\<rparr>"
  using ok
  by (auto simp add: placeBet_def Let_def usdToCrypto_def
      split: if_splits option.splits sum.splits)

lemma placeBet_success:
  assumes ok: "placeBet prices now txId txHash pid uname amount cur w = (Inr (d, bal), w')"
  shows "\<exists>r. currentRound w = Some r \<and> status r = Waiting \<and> currentRound w' = Some (addBet d r)"
    and "betData.playerId d = pid \<and> betData.usdAmount d = amount"
    and "\<exists>p'. findPlayer pid (players w') = Some p' \<and> wallet p' = bal"
    and "usd bal = availableUsd pid uname now (players w) - amount"
    and "btc bal = btc (wallet (case findPlayer pid (players w) of
                      None \<Rightarrow> newPlayer pid uname now | Some q \<Rightarrow> q))"
    and "eth bal = eth (wallet (case findPlayer pid (players w) of
                      None \<Rightarrow> newPlayer pid uname now | Some q \<Rightarrow> q))"
    and "\<exists>t. transactions w' = transactions w @ [t]
            \<and> balanceAfter t = bal \<and> balanceBefore t = bal\<lparr>usd := usd bal + amount\<rparr>"
proof -
  from placeBet_Inr [OF ok] obtain r price ps1 ts ps2 p0 where
    r: "currentRound w = Some r" "status r = Waiting"
    and p0: "p0 = (case findPlayer pid (players w) of None \<Rightarrow> newPlayer pid uname now | Some q \<Rightarrow> q)"
    and d: "d = \<lparr>betData.playerId = pid, betData.username = uname, betData.usdAmount = amount,
               betData.cryptoAmount = parseFloat_toFixed 8 (amount / price),
               betData.currency = toLowerCase cur, betData.priceAtTime = price, betTime = now\<rparr>"
    and s1: "savePlayer (findPlayer pid (players w) = None) (updateWallet ''usd'' (- amount) now p0)
            (players w) = Inr ps1"
    and st: "saveTransaction
            (betTransaction txId txHash now (gameRound.roundId r) d
               (updateWallet ''usd'' (- amount) now p0)) (transactions w) = Inr ts"
    and s2: "savePlayer False
            ((updateWallet ''usd'' (- amount) now p0)
               \<lparr>player.totalBets := player.totalBets (updateWallet ''usd'' (- amount) now p0) + amount\<rparr>)
            ps1 = Inr ps2"
    and bal: "bal = wallet (updateWallet ''usd'' (- amount) now p0)"
    and w': "w' = w\<lparr>currentRound := Some (addBet d r), players := ps2, transactions := ts\<rparr>"
    by blast
  let ?p1 = "updateWallet ''usd'' (- amount) now p0"
  let ?p2 = "?p1\<lparr>player.totalBets := player.totalBets ?p1 + amount\<rparr>"
  have pid0: "player.playerId p0 = pid"
    unfolding p0 by (auto simp add: newPlayer_def split: option.splits dest: findPlayer_playerId)
  have f1: "findPlayer pid ps1 = Some ?p1"
    using findPlayer_savePlayer [OF s1] pid0 by simp
  have "ps2 = map (\<lambda>q. if player.playerId q = pid then ?p2 else q) ps1"
    using s2 pid0 by (simp add: savePlayer_existing)
  with f1 have f2: "findPlayer pid ps2 = Some ?p2"
    using findPlayer_replace [of pid ps1 ?p1 ?p2] pid0 by simp
  show "\<exists>r. currentRound w = Some r \<and> status r = Waiting \<and> currentRound w' = Some (addBet d r)"
    using r w' by simp
  show "betData.playerId d = pid \<and> betData.usdAmount d = amount"
    using d by simp
  show "\<exists>p'. findPlayer pid (players w') = Some p' \<and> wallet p' = bal"
    using f2 w' bal by simp
  show "usd bal = availableUsd pid uname now (players w) - amount"
    using bal p0 by (simp add: availableUsd_def split: option.splits)
  show "btc bal = btc (wallet (case findPlayer pid (players w) of
                      None \<Rightarrow> newPlayer pid uname now | Some q \<Rightarrow> q))"
    using bal p0 by simp
  show "eth bal = eth (wallet (case findPlayer pid (players w) of
                      None \<Rightarrow> newPlayer pid uname now | Some q \<Rightarrow> q))"
    using bal p0 by simp
  show "\<exists>t. transactions w' = transactions w @ [t]
            \<and> balanceAfter t = bal \<and> balanceBefore t = bal\<lparr>usd := usd bal + amount\<rparr>"
    using saveTransaction_ok [OF st] w' bal d by (simp add: betTransaction_def)
qed

lemma find_cashoutFirst_single:
  assumes "length (filter (openBetOf pid) bs) = 1" and "m \<noteq> 0"
  shows "find (openBetOf pid) (cashoutFirst pid m now bs) = None"
  using assms
proof (induction bs)
  case Nil
  then show ?case by simp
next
  case (Cons b bs)
  show ?case
  proof (cases "openBetOf pid b")
    case True
    with Cons.prems have "filter (openBetOf pid) bs = []" by simp
    then have "find (openBetOf pid) bs = None"
      by (simp add: find_None_iff filter_empty_conv)
    moreover have "\<not> openBetOf pid (cashoutBet m now b)"
      using Cons.prems(2) by (simp add: openBetOf_def cashoutBet_def notValue_def)
    ultimately show ?thesis using True by simp
  next
    case False
    with Cons show ?thesis by simp
  qed
qed

lemma GameService_processCashout_Inr:
  assumes ok: "GameService_processCashout now txId txHash pid uname w = (Inr res, w')"
  shows "\<exists>r r1. currentRound w = Some r \<and> status r = Active
      \<and> currentRound w' = Some r1 \<and> status r1 = Active
      \<and> bets r1 = cashoutFirst pid
                      (calculateMultiplier (real_of_int (now - startTime r)) (growthFactor w))
                      now (bets r)"
  using ok
  by (auto simp add: GameService_processCashout_def processCashout_def Let_def savePlayer_existing
      split: if_splits option.splits sum.splits)

lemma placeBet_insufficient:
  assumes "availableUsd pid uname now (players w) < amount"
  shows "snd (placeBet prices now txId txHash pid uname amount cur w) = w"
    and "isl (fst (placeBet prices now txId txHash pid uname amount cur w))"
  using assms
  by (auto simp add: placeBet_def Let_def availableUsd_def usdToCrypto_def
      split: if_splits option.splits sum.splits)

lemma placeBet_insufficient_kind:
  assumes "availableUsd pid uname now (players w) < amount"
    and "0 < amount" and "isValidCurrency cur"
    and "currentRound w = Some r" and "status r = Waiting"
    and "prices (toLowerCase cur) = Some price" and "0 < price"
  shows "placeBet prices now txId txHash pid uname amount cur w = (Inl InsufficientBalance, w)"
  using assms
  by (auto simp add: placeBet_def Let_def availableUsd_def usdToCrypto_def
      split: if_splits option.splits sum.splits)

lemma walletCreate_Inr:
  assumes "walletCreate now pid uname ps = (Inr p, ps')"
  shows "p = newPlayer pid uname now" and "ps' = ps @ [p]"
    and "find (\<lambda>q. player.playerId q = pid \<or> player.username q = uname) ps = None"
  using assms
  by (auto simp add: walletCreate_def Let_def split: if_splits sum.splits
      dest: savePlayer_new_ok)

lemma findPlayer_None_of_either:
  "find (\<lambda>q. player.playerId q = pid \<or> player.username q = uname) ps = None
     \<Longrightarrow> findPlayer pid ps = None"
  by (simp add: findPlayer_def find_None_iff)


lemma verifyCrashPoint_iff:
  "verifyCrashPoint env candidate sd rid \<longleftrightarrow>
     \<bar>designCrashMultiplier (1 / 100) (maxCrashMultiplier env)
        (digestPrefixUniform (sha256 (bytesOf (hashInput sd rid)))) - candidate\<bar> < 1 / 1000"
  by (simp only: verifyCrashPoint_def generateCrashPoint_eq sum.case crashData.simps)

lemma sum_usd_cashoutFirst:
  "sum_list (map betData.usdAmount (cashoutFirst pid m now bs)) = sum_list (map betData.usdAmount bs)"
  by (induction bs) (simp_all add: cashoutBet_def)

lemma parseFloat_toFixed_ge_one:
  assumes "1 \<le> x"
  shows "1 \<le> parseFloat_toFixed d x"
proof (cases "10 ^ 21 \<le> \<bar>x\<bar>")
  case True
  with assms show ?thesis by (simp add: parseFloat_toFixed_def)
next
  case False
  have "(1::real) * 10 ^ d \<le> x * 10 ^ d"
    using assms by (rule mult_right_mono) simp
  then have "(10::real) ^ d \<le> x * 10 ^ d + 1 / 2" by linarith
  then have "of_int (10 ^ d) \<le> x * 10 ^ d + 1 / 2" by simp
  then have "(10::int) ^ d \<le> \<lfloor>x * 10 ^ d + 1 / 2\<rfloor>"
    by (simp only: le_floor_iff)
  then have "real_of_int (10 ^ d) \<le> real_of_int \<lfloor>x * 10 ^ d + 1 / 2\<rfloor>"
    by (simp only: of_int_le_iff)
  then have "1 \<le> real_of_int \<lfloor>x * 10 ^ d + 1 / 2\<rfloor> / 10 ^ d"
    by (simp add: le_divide_eq)
  with False assms show ?thesis by (simp add: parseFloat_toFixed_def)
qed

lemma calculateMultiplier_ge_one:
  assumes "0 \<le> elapsed" and "0 \<le> g"
  shows "1 \<le> calculateMultiplier elapsed g"
proof -
  have "0 \<le> elapsed / 1000 * g" using assms by simp
  then have "1 \<le> 1 + elapsed / 1000 * g" by simp
  then show ?thesis
    by (simp only: calculateMultiplier_def Let_def parseFloat_toFixed_ge_one)
qed

lemma placeBet_preceding_checks:
  shows "amount \<le> 0 \<Longrightarrow>
      placeBet prices now txId txHash pid uname amount cur w = (Inl InvalidBetAmount, w)"
    and "0 < amount \<Longrightarrow> \<not> isValidCurrency cur \<Longrightarrow>
      placeBet prices now txId txHash pid uname amount cur w = (Inl InvalidCurrency, w)"
    and "0 < amount \<Longrightarrow> isValidCurrency cur \<Longrightarrow>
      \<not> (\<exists>r. currentRound w = Some r \<and> status r = Waiting) \<Longrightarrow>
      placeBet prices now txId txHash pid uname amount cur w = (Inl NoRoundAcceptingBets, w)"
    and "0 < amount \<Longrightarrow> isValidCurrency cur \<Longrightarrow>
      \<exists>r. currentRound w = Some r \<and> status r = Waiting \<Longrightarrow>
      \<not> (\<exists>price. prices (toLowerCase cur) = Some price \<and> 0 < price) \<Longrightarrow>
      placeBet prices now txId txHash pid uname amount cur w = (Inl PriceUnavailable, w)"
  by (auto simp add: placeBet_def Let_def split: option.splits)

lemma notValue_unsettled:
  "v \<noteq> Some 0 \<Longrightarrow> notValue v \<longleftrightarrow> v = None"
  by (cases v) (simp_all add: notValue_def)

lemma finalizeRound_counts_unsettled:
  assumes "\<forall>b \<in> set (bets r). cashoutMultiplier b \<noteq> Some 0"
  shows "totalLosers (finalizeRound now r)
           = length (filter (\<lambda>b. cashoutMultiplier b = None) (bets r))"
proof -
  have "filter (\<lambda>b. notValue (cashoutMultiplier b)) (bets r)
          = filter (\<lambda>b. cashoutMultiplier b = None) (bets r)"
    using assms by (intro filter_cong refl) (simp add: notValue_unsettled)
  then show ?thesis by (simp add: finalizeRound_def)
qed


section \<open>The digest and the generator on an example\<close>

text \<open>
  The SHA-256 of the three characters \<open>a-b\<close>, computed by the definitions above, and what
  \<open>generateCrashPoint('a', 'b')\<close> makes of it.
\<close>

lemma sha256_a_b:
  "sha256 (bytesOf ''a-b'') =
     [212, 67, 98, 214, 125, 146, 16, 145, 199, 185, 103, 77, 117, 46, 158, 35, 193, 249,
      236, 138, 79, 11, 130, 116, 27, 240, 19, 100, 235, 151, 200, 48]"
  by code_simp

lemma generateCrashPoint_a_b:
  "generateCrashPoint env ''a'' ''b'' =
     Inr \<lparr>crashData.crashPoint = min (4831838208 / 833842375) (maxCrashMultiplier env),
          crashData.seed = ''a'',
          crashData.hash = ''d44362d67d921091c7b9674d752e9e23c1f9ec8a4f0b82741bf01364eb97c830'',
          randomValue = 1780593003 / 2147483648\<rparr>"
  by (simp add: generateCrashPoint_eq hashInput_def sha256_a_b digestPrefixUniform_def
      designCrashMultiplier_def toHex_def hexDigit_def)

section \<open>The claims\<close>

lemmas scenario_defs =
  scenarioWorld_def scenarioPrices_def scenarioCrash_def newGameRound_def newPlayer_def
  placeBet_def isValidCurrency_def toLowerCase_def toLowerChar_def usdToCrypto_def
  parseFloat_toFixed_def findPlayer_def savePlayer_def saveTransaction_def updateWallet_def
  addBet_def castBet_def betData.defs bet.defs betTransaction_def activateRound_def Let_def
  GameService_processCashout_def processCashout_def openBetOf_def notValue_def
  calculateMultiplier_def cashoutBet_def cashoutTransaction_def

subsection \<open>C2: a second cashout\<close>

text \<open>
  C2, as amended.  In a sequential run, after a participant's cashout succeeded in an ACTIVE
  round, at an instant not before the round's start and with a growth factor that is not
  negative, the next cashout call by the same participant in the same round fails with
  \<open>'No active bet found for player'\<close> and changes nothing (the round with its bets and
  aggregates, the players with their balances and the transactions are the same after the
  call as before), provided that the wager the first call settled was the participant's
  only open wager of the round.  The proviso is needed because the round accepts several
  wagers of one participant.
\<close>

theorem second_cashout_rejected:
  assumes first: "GameService_processCashout now1 txId1 txHash1 pid uname1 w = (Inr res, w1)"
    and round: "currentRound w = Some r"
    and single: "length (filter (openBetOf pid) (bets r)) = 1"
    and clock: "startTime r \<le> now1"
    and growth: "0 \<le> growthFactor w"
  shows "GameService_processCashout now2 txId2 txHash2 pid uname2 w1 = (Inl NoActiveBet, w1)"
proof -
  let ?m = "calculateMultiplier (real_of_int (now1 - startTime r)) (growthFactor w)"
  have "0 \<le> real_of_int (now1 - startTime r)"
    using clock by simp
  then have "1 \<le> ?m"
    using growth by (rule calculateMultiplier_ge_one)
  then have nonzero: "?m \<noteq> 0" by simp
  from GameService_processCashout_Inr [OF first] obtain r0 r1 where
    r0: "currentRound w = Some r0"
    and r1: "currentRound w1 = Some r1" "status r1 = Active"
    and bets1: "bets r1 = cashoutFirst pid
                  (calculateMultiplier (real_of_int (now1 - startTime r0)) (growthFactor w))
                  now1 (bets r0)"
    by blast
  from r0 round have "r0 = r" by simp
  with bets1 have "bets r1 = cashoutFirst pid ?m now1 (bets r)" by simp
  moreover have "find (openBetOf pid) (cashoutFirst pid ?m now1 (bets r)) = None"
    using single nonzero by (rule find_cashoutFirst_single)
  ultimately have "find (openBetOf pid) (bets r1) = None" by simp
  with r1 show ?thesis
    by (simp add: GameService_processCashout_def)
qed

text \<open>
  Scenario B of the design: the wager of 10 at rate 10000, a cashout 5000 ms after the
  round's start at multiplier 1.05, then a second call one millisecond later.
\<close>

theorem second_cashout_rejected_witness:
  "fst (GameService_processCashout 1700000005000 ''t2'' ''h2'' ''p1'' ''alice'' oneWagerWorld)
     = Inr (21 / 20, 21 / 20000, 21 / 2, \<lparr>btc = 21 / 20000, eth = 0, usd = 90\<rparr>)
   \<and> GameService_processCashout 1700000005001 ''t3'' ''h3'' ''p1'' ''alice''
         (snd (GameService_processCashout 1700000005000 ''t2'' ''h2'' ''p1'' ''alice'' oneWagerWorld))
     = (Inl NoActiveBet,
        snd (GameService_processCashout 1700000005000 ''t2'' ''h2'' ''p1'' ''alice'' oneWagerWorld))"
proof -
  let ?first = "GameService_processCashout 1700000005000 ''t2'' ''h2'' ''p1'' ''alice'' oneWagerWorld"
  let ?res = "(21 / 20, 21 / 20000, 21 / 2, \<lparr>btc = 21 / 20000, eth = 0, usd = 90\<rparr>)
                :: real \<times> real \<times> real \<times> wallet"
  have res: "fst ?first = Inr ?res"
    by (simp add: oneWagerWorld_def scenario_defs)
  then have first: "?first = (Inr ?res, snd ?first)"
    by (metis prod.collapse)
  obtain r where r: "currentRound oneWagerWorld = Some r"
    by (simp add: oneWagerWorld_def scenario_defs)
  then have single: "length (filter (openBetOf ''p1'') (bets r)) = 1"
    and start: "startTime r = 1700000000000"
    by (auto simp add: oneWagerWorld_def scenario_defs)
  have clock: "startTime r \<le> 1700000005000"
    unfolding start by simp
  have growth: "0 \<le> growthFactor oneWagerWorld"
    by (simp add: oneWagerWorld_def scenario_defs)
  show ?thesis
    using res second_cashout_rejected [OF first r single clock growth] by simp
qed

text \<open>
  C2 as stated fails.  With two wagers of the participant in the round, the call that follows
  a successful cashout succeeds as well and pays the second wager.
\<close>

theorem second_cashout_paid_again:
  "fst (GameService_processCashout 1700000005000 ''t3'' ''h3'' ''p1'' ''alice'' twoWagerWorld)
     = Inr (21 / 20, 21 / 20000, 21 / 2, \<lparr>btc = 21 / 20000, eth = 0, usd = 70\<rparr>)
   \<and> fst (GameService_processCashout 1700000005001 ''t4'' ''h4'' ''p1'' ''alice''
          (snd (GameService_processCashout 1700000005000 ''t3'' ''h3'' ''p1'' ''alice'' twoWagerWorld)))
     = Inr (21 / 20, 21 / 10000, 21, \<lparr>btc = 63 / 20000, eth = 0, usd = 70\<rparr>)"
  by (simp add: twoWagerWorld_def scenario_defs)

subsection \<open>C3: bet placement and partial effects\<close>

text \<open>
  C3, as amended.  A \<open>placeBet\<close> call that fails one of its checks (stake, currency, round
  status, price, conversion, balance: every error other than a write the store rejects)
  changes nothing: the round's bets gain no entry and no balance is touched.  A call that
  succeeds appends exactly the returned wager to the round's bets and stores the
  participant with the balance it returns, which is the balance before the call less the
  stake.  Nothing is stated about a call that fails after \<open>addBet\<close> because the store
  rejects a write.
\<close>

theorem placeBet_no_partial_effect:
  "(placeBet prices now txId txHash pid uname amount cur w = (Inl e, w')
      \<longrightarrow> e = DuplicateKey \<or> w' = w)
   \<and> (placeBet prices now txId txHash pid uname amount cur w = (Inr (d, bal), w')
      \<longrightarrow> (\<exists>r. currentRound w = Some r \<and> currentRound w' = Some (addBet d r))
          \<and> betData.playerId d = pid \<and> betData.usdAmount d = amount
          \<and> (\<exists>p'. findPlayer pid (players w') = Some p' \<and> wallet p' = bal)
          \<and> usd bal = availableUsd pid uname now (players w) - amount)"
proof (intro conjI impI)
  assume "placeBet prices now txId txHash pid uname amount cur w = (Inl e, w')"
  then show "e = DuplicateKey \<or> w' = w"
    using placeBet_check_failure by blast
next
  assume ok: "placeBet prices now txId txHash pid uname amount cur w = (Inr (d, bal), w')"
  from placeBet_success(1) [OF ok]
  show "\<exists>r. currentRound w = Some r \<and> currentRound w' = Some (addBet d r)" by blast
  from placeBet_success(2) [OF ok]
  show "betData.playerId d = pid" and "betData.usdAmount d = amount" by simp_all
  from placeBet_success(3) [OF ok]
  show "\<exists>p'. findPlayer pid (players w') = Some p' \<and> wallet p' = bal" .
  from placeBet_success(4) [OF ok]
  show "usd bal = availableUsd pid uname now (players w) - amount" .
qed

text \<open>
  A call that the balance check rejects, and scenario A of the design: balance 100, a wager
  of 10 at rate 10000, resulting balance 90 and converted amount 0.001.
\<close>

theorem placeBet_no_partial_effect_witness:
  "placeBet scenarioPrices 1700000000500 ''t1'' ''h1'' ''p1'' ''alice'' 10 ''btc'' (scenarioWorld Waiting 5)
     = (Inl InsufficientBalance, scenarioWorld Waiting 5)
   \<and> fst (placeBet scenarioPrices 1700000000500 ''t1'' ''h1'' ''p1'' ''alice'' 10 ''btc''
            (scenarioWorld Waiting 100))
     = Inr (\<lparr>betData.playerId = ''p1'', betData.username = ''alice'', betData.usdAmount = 10,
             betData.cryptoAmount = 1 / 1000, betData.currency = ''btc'',
             betData.priceAtTime = 10000, betTime = 1700000000500\<rparr>,
            \<lparr>btc = 0, eth = 0, usd = 90\<rparr>)
   \<and> availableUsd ''p1'' ''alice'' 1700000000500 (players (scenarioWorld Waiting 100)) - 10 = 90"
  using placeBet_no_partial_effect [of scenarioPrices 1700000000500 "''t1''" "''h1''" "''p1''" "''alice''"
      10 "''btc''" "scenarioWorld Waiting 5" InsufficientBalance "scenarioWorld Waiting 5"]
  by (simp add: scenario_defs availableUsd_def)

text \<open>
  C3 as stated fails.  A participant unknown to the store places a wager under a name that
  a stored player holds: the wager is appended to the round, then the store rejects the
  new player, whose name must be unique.  The call fails, the wager stays in the round,
  and no balance was debited.
\<close>

theorem placeBet_recorded_without_debit:
  "placeBet scenarioPrices 1700000000500 ''t1'' ''h1'' ''p2'' ''alice'' 10 ''btc'' (scenarioWorld Waiting 100)
     = (Inl DuplicateKey,
        (scenarioWorld Waiting 100)
          \<lparr>currentRound :=
             Some (addBet
                     \<lparr>betData.playerId = ''p2'', betData.username = ''alice'',
                      betData.usdAmount = 10, betData.cryptoAmount = 1 / 1000,
                      betData.currency = ''btc'', betData.priceAtTime = 10000, betTime = 1700000000500\<rparr>
                     (newGameRound ''r1'' 1700000000000 scenarioCrash))\<rparr>)"
  by (simp add: scenario_defs)

subsection \<open>C4: finalization\<close>

text \<open>
  C4 asks that finalization count as losers the wagers still open, and only those.
  \<open>finalizeRound\<close> does set the status to \<open>crashed\<close> and \<open>houseProfit\<close> to
  \<open>totalBets - totalCashouts\<close>, and it pays no wager.  But it takes a wager for open when
  \<open>!b.cashoutMultiplier\<close> holds, and that holds of a wager that was cashed out at the
  multiplier 0 as well as of one that was never cashed out.  In the round of the scenario
  the one wager is cashed out while the clock reads 100 s before the round's start: the
  multiplier is 0 (a negative elapsed time is not clamped), the payout 0, and the wager is
  flagged a winner, with its cashout fields filled.  The round is then finalized: no wager
  is open,
  yet \<open>totalLosers\<close> is 1, next to \<open>totalWinners\<close> 1, and the wager counted as lost is
  the one flagged a winner.  (Where no wager records the multiplier 0, \<open>totalLosers\<close> is
  the number of wagers without a cashout: \<open>finalizeRound_counts_unsettled\<close>.)
\<close>

theorem finalizeRound_counts_settled_wager:
  "fst (GameService_processCashout 1699999900000 ''t2'' ''h2'' ''p1'' ''alice'' oneWagerWorld)
     = Inr (0, 0, 0, \<lparr>btc = 0, eth = 0, usd = 90\<rparr>)
   \<and> currentRound
         (crashRound 1700000008000
            (snd (GameService_processCashout 1699999900000 ''t2'' ''h2'' ''p1'' ''alice''
                    oneWagerWorld)))
     = Some \<lparr>gameRound.roundId = ''r1'', status = Crashed, startTime = 1700000000000,
              endTime = Some 1700000008000, crashPoint = 5 / 2, seed = ''5eed'',
              hash = ''d1935t'', maxMultiplier = 0,
              bets =
                [castBet scenarioBet
                   \<lparr>cashoutMultiplier := Some 0, cashoutCryptoAmount := Some 0,
                    cashoutUsdAmount := Some 0, isWinner := True,
                    cashoutTime := Some 1699999900000\<rparr>],
              gameRound.totalBets = 10, totalCashouts = 0, totalWinners = 1, totalLosers = 1,
              houseProfit = 10\<rparr>"
  by (simp add: oneWagerWorld_def scenario_defs crashRound_def finalizeRound_def scenarioBet_def)

subsection \<open>C5: a stake above the balance\<close>

text \<open>
  C5.  Bet placement checks the stake, the currency, the round and the price, in this
  order, and then the balance, which is the order of the design's \<open>placeWager\<close>.  For every
  placement whose stake exceeds the participant's available USD balance, the call fails
  before any change, and every balance is the same after the call as before.  It fails
  with \<open>'Insufficient USD balance'\<close> whenever it reaches the balance check, that is, with a
  positive stake, a supported currency, a round that is WAITING and a positive price; a
  placement that one of these checks stops fails with the error of that check.
\<close>

theorem placeBet_insufficient_balance:
  assumes "availableUsd pid uname now (players w) < amount"
  shows "(0 < amount \<and> isValidCurrency cur
            \<and> (\<exists>r. currentRound w = Some r \<and> status r = Waiting)
            \<and> (\<exists>price. prices (toLowerCase cur) = Some price \<and> 0 < price)
          \<longrightarrow> placeBet prices now txId txHash pid uname amount cur w
                = (Inl InsufficientBalance, w))
       \<and> snd (placeBet prices now txId txHash pid uname amount cur w) = w
       \<and> isl (fst (placeBet prices now txId txHash pid uname amount cur w))
       \<and> (amount \<le> 0
          \<longrightarrow> placeBet prices now txId txHash pid uname amount cur w
                = (Inl InvalidBetAmount, w))
       \<and> (0 < amount \<and> \<not> isValidCurrency cur
          \<longrightarrow> placeBet prices now txId txHash pid uname amount cur w
                = (Inl InvalidCurrency, w))
       \<and> (0 < amount \<and> isValidCurrency cur
            \<and> \<not> (\<exists>r. currentRound w = Some r \<and> status r = Waiting)
          \<longrightarrow> placeBet prices now txId txHash pid uname amount cur w
                = (Inl NoRoundAcceptingBets, w))
       \<and> (0 < amount \<and> isValidCurrency cur
            \<and> (\<exists>r. currentRound w = Some r \<and> status r = Waiting)
            \<and> \<not> (\<exists>price. prices (toLowerCase cur) = Some price \<and> 0 < price)
          \<longrightarrow> placeBet prices now txId txHash pid uname amount cur w
                = (Inl PriceUnavailable, w))"
proof -
  let ?call = "placeBet prices now txId txHash pid uname amount cur w"
  have kind: "?call = (Inl InsufficientBalance, w)"
    if "0 < amount \<and> isValidCurrency cur
          \<and> (\<exists>r. currentRound w = Some r \<and> status r = Waiting)
          \<and> (\<exists>price. prices (toLowerCase cur) = Some price \<and> 0 < price)"
  proof -
    from that obtain r price where
      "0 < amount" "isValidCurrency cur" "currentRound w = Some r" "status r = Waiting"
      "prices (toLowerCase cur) = Some price" "0 < price"
      by blast
    then show ?thesis
      using placeBet_insufficient_kind
        [where prices = prices and txId = txId and txHash = txHash and r = r and price = price,
          OF assms]
      by simp
  qed
  have same: "snd ?call = w" and fails: "isl (fst ?call)"
    using placeBet_insufficient [OF assms] by simp_all
  show ?thesis
    using kind same fails
      placeBet_preceding_checks
        [where amount = amount and prices = prices and now = now and txId = txId
           and txHash = txHash and pid = pid and uname = uname and cur = cur and w = w]
    by blast
qed

text \<open>
  A balance of 5 and a stake of 10: in the WAITING round the call is refused for the
  balance, in the round that is already ACTIVE for the round.  Both leave the state as it
  was.
\<close>

theorem placeBet_insufficient_balance_witness:
  "availableUsd ''p1'' ''alice'' 1700000000500 (players (scenarioWorld Waiting 5)) < 10
   \<and> placeBet scenarioPrices 1700000000500 ''t1'' ''h1'' ''p1'' ''alice'' 10 ''btc''
         (scenarioWorld Waiting 5)
     = (Inl InsufficientBalance, scenarioWorld Waiting 5)
   \<and> availableUsd ''p1'' ''alice'' 1700000000500 (players (scenarioWorld Active 5)) < 10
   \<and> placeBet scenarioPrices 1700000000500 ''t1'' ''h1'' ''p1'' ''alice'' 10 ''btc''
         (scenarioWorld Active 5)
     = (Inl NoRoundAcceptingBets, scenarioWorld Active 5)"
proof -
  have less: "availableUsd ''p1'' ''alice'' 1700000000500 (players (scenarioWorld Waiting 5)) < 10"
    by (simp add: availableUsd_def scenario_defs)
  have reaches: "0 < (10::real) \<and> isValidCurrency ''btc''
       \<and> (\<exists>r. currentRound (scenarioWorld Waiting 5) = Some r \<and> status r = Waiting)
       \<and> (\<exists>price. scenarioPrices (toLowerCase ''btc'') = Some price \<and> 0 < price)"
    by (simp add: scenario_defs)
  have waiting:
    "placeBet scenarioPrices 1700000000500 ''t1'' ''h1'' ''p1'' ''alice'' 10 ''btc''
       (scenarioWorld Waiting 5) = (Inl InsufficientBalance, scenarioWorld Waiting 5)"
    using placeBet_insufficient_balance [OF less, of "''btc''" scenarioPrices "''t1''" "''h1''"]
      reaches by blast
  have less': "availableUsd ''p1'' ''alice'' 1700000000500 (players (scenarioWorld Active 5)) < 10"
    by (simp add: availableUsd_def scenario_defs)
  have stopped: "0 < (10::real) \<and> isValidCurrency ''btc''
       \<and> \<not> (\<exists>r. currentRound (scenarioWorld Active 5) = Some r \<and> status r = Waiting)"
    by (simp add: scenario_defs)
  have active:
    "placeBet scenarioPrices 1700000000500 ''t1'' ''h1'' ''p1'' ''alice'' 10 ''btc''
       (scenarioWorld Active 5) = (Inl NoRoundAcceptingBets, scenarioWorld Active 5)"
    using placeBet_insufficient_balance [OF less', of "''btc''" scenarioPrices "''t1''" "''h1''"]
      stopped by blast
  show ?thesis
    using less waiting less' active by blast
qed

subsection \<open>C6: the crash point generator\<close>

text \<open>
  C6, as amended.  \<open>generateCrashPoint(seed, roundId)\<close> hashes the string made of the seed,
  a hyphen and the round id with SHA-256, reads the first four bytes of the digest as a
  big-endian unsigned integer and divides by \<open>2^32\<close>, which gives \<open>r\<close> with
  \<open>0 \<le> r < 1\<close>, computes \<open>max(1, (1 / (1 - r)) * (1 - houseEdge))\<close> with house edge 0.01,
  and clamps the result from above to the configured maximum (100 when
  \<open>MAX_CRASH_MULTIPLIER\<close> is unset, not a number, or 0).  It always returns, and returns the
  seed and the hexadecimal digest with the crash point.  Being a function of the
  configuration, the seed and the round id alone, it is deterministic and without side
  effect.  Its result is at most the maximum, and lies in \<open>[1, maximum]\<close> whenever the
  maximum is at least 1, as the default is.
\<close>

theorem generateCrashPoint_algorithm:
  "generateCrashPoint env sd rid =
     Inr \<lparr>crashData.crashPoint =
            designCrashMultiplier (1 / 100) (maxCrashMultiplier env)
              (digestPrefixUniform (sha256 (bytesOf (sd @ ''-'' @ rid)))),
          crashData.seed = sd,
          crashData.hash = toHex (sha256 (bytesOf (sd @ ''-'' @ rid))),
          randomValue = digestPrefixUniform (sha256 (bytesOf (sd @ ''-'' @ rid)))\<rparr>
   \<and> 0 \<le> digestPrefixUniform (sha256 (bytesOf (sd @ ''-'' @ rid)))
   \<and> digestPrefixUniform (sha256 (bytesOf (sd @ ''-'' @ rid))) < 1
   \<and> maxCrashMultiplier None = 100
   \<and> designCrashMultiplier (1 / 100) (maxCrashMultiplier env)
         (digestPrefixUniform (sha256 (bytesOf (sd @ ''-'' @ rid)))) \<le> maxCrashMultiplier env
   \<and> (1 \<le> maxCrashMultiplier env \<longrightarrow>
         1 \<le> designCrashMultiplier (1 / 100) (maxCrashMultiplier env)
               (digestPrefixUniform (sha256 (bytesOf (sd @ ''-'' @ rid)))))"
proof -
  let ?r = "digestPrefixUniform (sha256 (bytesOf (sd @ ''-'' @ rid)))"
  have eq: "generateCrashPoint env sd rid =
     Inr \<lparr>crashData.crashPoint = designCrashMultiplier (1 / 100) (maxCrashMultiplier env) ?r,
          crashData.seed = sd,
          crashData.hash = toHex (sha256 (bytesOf (sd @ ''-'' @ rid))),
          randomValue = ?r\<rparr>"
    using generateCrashPoint_eq [of env sd rid] by (simp only: hashInput_def)
  have range: "0 \<le> ?r" "?r < 1"
    using digestPrefixUniform_range by simp_all
  have default: "maxCrashMultiplier None = 100"
    by (simp add: maxCrashMultiplier_def)
  have upper: "designCrashMultiplier (1 / 100) (maxCrashMultiplier env) ?r \<le> maxCrashMultiplier env"
    by (simp add: designCrashMultiplier_def)
  have lower: "1 \<le> designCrashMultiplier (1 / 100) (maxCrashMultiplier env) ?r"
    if "1 \<le> maxCrashMultiplier env"
    using that by (simp add: designCrashMultiplier_def)
  show ?thesis
    using eq range default upper lower by blast
qed

text \<open>
  Seed \<open>a\<close> and round id \<open>b\<close> in the default configuration: the digest of \<open>a-b\<close>, its
  first four bytes over \<open>2^32\<close>, and the crash point \<open>0.99 / (1 - r)\<close>, about 5.79.
\<close>

theorem generateCrashPoint_algorithm_witness:
  "generateCrashPoint None ''a'' ''b'' =
     Inr \<lparr>crashData.crashPoint = 4831838208 / 833842375,
          crashData.seed = ''a'',
          crashData.hash = ''d44362d67d921091c7b9674d752e9e23c1f9ec8a4f0b82741bf01364eb97c830'',
          randomValue = 1780593003 / 2147483648\<rparr>
   \<and> (1::real) \<le> maxCrashMultiplier None
   \<and> (1::real) \<le> 4831838208 / 833842375 \<and> (4831838208 / 833842375 :: real) \<le> 100"
  using generateCrashPoint_algorithm [of None "''a''" "''b''"] generateCrashPoint_a_b [of None]
  by (simp add: maxCrashMultiplier_def)

text \<open>
  C6 as stated fails.  With \<open>MAX_CRASH_MULTIPLIER=0.5\<close>, seed \<open>a\<close> and round id \<open>b\<close> the
  result is 0.5, below 1; and the hash is the SHA-256 of \<open>a-b\<close>, not of \<open>ab\<close> (which is
  \<open>fb8e20fc...\<close>).
\<close>

theorem generateCrashPoint_below_one:
  "generateCrashPoint (Some (1 / 2)) ''a'' ''b'' =
     Inr \<lparr>crashData.crashPoint = 1 / 2,
          crashData.seed = ''a'',
          crashData.hash = ''d44362d67d921091c7b9674d752e9e23c1f9ec8a4f0b82741bf01364eb97c830'',
          randomValue = 1780593003 / 2147483648\<rparr>"
  by (simp add: generateCrashPoint_a_b maxCrashMultiplier_def)

subsection \<open>C7: verifying a crash point\<close>

text \<open>
  C7.  For every seed and round id (and configuration), \<open>generateCrashPoint\<close> returns, and
  \<open>verifyCrashPoint\<close> accepts the crash point it returned for the same seed and round id,
  and rejects every candidate that differs from it by more than 0.001.
\<close>

theorem verifyCrashPoint_roundtrip:
  "case generateCrashPoint env sd rid of
     Inl e \<Rightarrow> False
   | Inr generated \<Rightarrow>
       verifyCrashPoint env (crashData.crashPoint generated) sd rid
       \<and> (\<forall>candidate. 1 / 1000 < \<bar>candidate - crashData.crashPoint generated\<bar>
             \<longrightarrow> \<not> verifyCrashPoint env candidate sd rid)"
proof -
  let ?g = "designCrashMultiplier (1 / 100) (maxCrashMultiplier env)
              (digestPrefixUniform (sha256 (bytesOf (hashInput sd rid))))"
  have exact: "verifyCrashPoint env ?g sd rid"
    by (simp add: verifyCrashPoint_iff)
  have far: "\<not> verifyCrashPoint env c sd rid" if "1 / 1000 < \<bar>c - ?g\<bar>" for c
  proof -
    have "\<bar>?g - c\<bar> = \<bar>c - ?g\<bar>" by (rule abs_minus_commute)
    with that have "\<not> \<bar>?g - c\<bar> < 1 / 1000" by linarith
    then show ?thesis by (simp only: verifyCrashPoint_iff not_False_eq_True)
  qed
  show ?thesis
    using exact far by (simp only: generateCrashPoint_eq sum.case crashData.simps) blast
qed

text \<open>
  Seed \<open>a\<close>, round id \<open>b\<close>, default configuration: the generated crash point is accepted,
  and 5.79, which is 0.0047 below it, is rejected.
\<close>

theorem verifyCrashPoint_roundtrip_witness:
  "verifyCrashPoint None (4831838208 / 833842375) ''a'' ''b''
   \<and> (1 / 1000 :: real) < \<bar>579 / 100 - 4831838208 / 833842375\<bar>
   \<and> \<not> verifyCrashPoint None (579 / 100) ''a'' ''b''"
  using verifyCrashPoint_roundtrip [of None "''a''" "''b''"] generateCrashPoint_a_b [of None]
  by (simp add: maxCrashMultiplier_def)

subsection \<open>C8: negative elapsed time\<close>

text \<open>
  C8 is what the unit test of the repository expects (\<open>calculateMultiplier(-1000)\<close> is to
  equal 1.0), and the code does not do it: it has no branch for a negative elapsed time,
  and evaluates \<open>1 + (elapsedTime / 1000) * growthFactor\<close> as for any other.  One second
  before the start, at growth factor 0.01, the multiplier is 0.99.
\<close>

theorem calculateMultiplier_negative_elapsed:
  "calculateMultiplier (- 1000) (1 / 100) = 99 / 100
   \<and> calculateMultiplier (- 1000) (1 / 100) < 1"
  by (simp add: calculateMultiplier_def parseFloat_toFixed_def)

subsection \<open>C9: \<open>totalBets\<close> is the sum of the stakes\<close>

text \<open>
  C9.  A round's \<open>totalBets\<close> equals the sum of \<open>usdAmount\<close> over its bets: this holds of a
  round as it is created, and \<open>addBet\<close>, a \<open>processCashout\<close> that returns, and
  \<open>finalizeRound\<close> each keep it.
\<close>

theorem totalBets_invariant:
  "totalBetsInvariant (newGameRound rid t0 cd)
   \<and> (totalBetsInvariant r \<longrightarrow> totalBetsInvariant (addBet d r))
   \<and> (totalBetsInvariant r \<longrightarrow>
        (\<forall>r'. processCashout pid m now r = Inr r' \<longrightarrow> totalBetsInvariant r'))
   \<and> (totalBetsInvariant r \<longrightarrow> totalBetsInvariant (finalizeRound now r))"
  by (auto simp add: totalBetsInvariant_def newGameRound_def addBet_def castBet_def
      betData.defs bet.defs processCashout_def finalizeRound_def sum_usd_cashoutFirst
      split: option.splits)

text \<open>The round of the scenario with the wager of 10: placed, cashed out at 1.05, finalized.\<close>

theorem totalBets_invariant_witness:
  "totalBetsInvariant (newGameRound ''r1'' 1700000000000 scenarioCrash)
   \<and> totalBetsInvariant (addBet scenarioBet (newGameRound ''r1'' 1700000000000 scenarioCrash))
   \<and> (case processCashout ''p1'' (21 / 20) 1700000005000
             (addBet scenarioBet (newGameRound ''r1'' 1700000000000 scenarioCrash)) of
        Inl e \<Rightarrow> False
      | Inr r' \<Rightarrow> totalBetsInvariant r' \<and> gameRound.totalBets r' = 10)
   \<and> totalBetsInvariant
        (finalizeRound 1700000008000 (addBet scenarioBet (newGameRound ''r1'' 1700000000000 scenarioCrash)))"
proof -
  let ?r0 = "newGameRound ''r1'' 1700000000000 scenarioCrash"
  let ?r1 = "addBet scenarioBet ?r0"
  have fresh: "totalBetsInvariant ?r0"
    using totalBets_invariant [of "''r1''" 1700000000000 scenarioCrash] by blast
  have placed: "totalBetsInvariant ?r1"
    using fresh totalBets_invariant [of "''r1''" 1700000000000 scenarioCrash ?r0 scenarioBet] by blast
  have kept: "\<forall>r'. processCashout ''p1'' (21 / 20) 1700000005000 ?r1 = Inr r' \<longrightarrow> totalBetsInvariant r'"
    and final: "totalBetsInvariant (finalizeRound 1700000008000 ?r1)"
    using placed totalBets_invariant [of "''r1''" 1700000000000 scenarioCrash ?r1 scenarioBet
        "''p1''" "21 / 20" 1700000005000]
      totalBets_invariant [of "''r1''" 1700000000000 scenarioCrash ?r1 scenarioBet
        "''p1''" "21 / 20" 1700000008000]
    by blast+
  have "\<exists>r'. processCashout ''p1'' (21 / 20) 1700000005000 ?r1 = Inr r' \<and> gameRound.totalBets r' = 10"
    by (simp add: processCashout_def addBet_def scenarioBet_def newGameRound_def castBet_def
        betData.defs bet.defs openBetOf_def notValue_def)
  with kept have
    "case processCashout ''p1'' (21 / 20) 1700000005000 ?r1 of
       Inl e \<Rightarrow> False | Inr r' \<Rightarrow> totalBetsInvariant r' \<and> gameRound.totalBets r' = 10"
    by auto
  with fresh placed final show ?thesis by blast
qed

subsection \<open>C10: the wallet of a new player\<close>

text \<open>
  C10.  A player created on first contact begins with 1000 USD, 0 BTC and 0 ETH.
  \<open>new Player({playerId, username})\<close> has that wallet.  The wallet-create endpoint, when it
  succeeds, stores the player with it.  Bet placement for an unknown player id checks the
  stake against 1000; when it succeeds it stores the player with 1000 less the stake, no BTC
  and no ETH, and records 1000 USD, 0 BTC and 0 ETH as the balance before the bet.
\<close>

theorem new_player_wallet:
  "wallet (newPlayer pid uname now) = \<lparr>btc = 0, eth = 0, usd = 1000\<rparr>
   \<and> (walletCreate now pid uname ps = (Inr p, ps') \<longrightarrow>
        findPlayer pid ps = None \<and> findPlayer pid ps' = Some p
        \<and> wallet p = \<lparr>btc = 0, eth = 0, usd = 1000\<rparr>)
   \<and> (findPlayer pid (players w) = None \<longrightarrow> availableUsd pid uname now (players w) = 1000)
   \<and> (findPlayer pid (players w) = None
        \<and> placeBet prices now txId txHash pid uname amount cur w = (Inr (d, bal), w') \<longrightarrow>
        bal = \<lparr>btc = 0, eth = 0, usd = 1000 - amount\<rparr>
        \<and> (\<exists>p'. findPlayer pid (players w') = Some p' \<and> wallet p' = bal)
        \<and> (\<exists>t. transactions w' = transactions w @ [t]
               \<and> balanceBefore t = \<lparr>btc = 0, eth = 0, usd = 1000\<rparr>))"
proof (intro conjI impI)
  show "wallet (newPlayer pid uname now) = \<lparr>btc = 0, eth = 0, usd = 1000\<rparr>"
    by (simp add: newPlayer_def)
next
  assume created: "walletCreate now pid uname ps = (Inr p, ps')"
  note facts = walletCreate_Inr [OF created]
  from facts(3) show none: "findPlayer pid ps = None"
    by (rule findPlayer_None_of_either)
  have "player.playerId p = pid"
    using facts(1) by (simp add: newPlayer_def)
  with none facts(2) show "findPlayer pid ps' = Some p"
    by (simp add: findPlayer_append_new)
  show "wallet p = \<lparr>btc = 0, eth = 0, usd = 1000\<rparr>"
    using facts(1) by (simp add: newPlayer_def)
next
  assume "findPlayer pid (players w) = None"
  then show "availableUsd pid uname now (players w) = 1000"
    by (simp add: availableUsd_def newPlayer_def)
next
  assume a: "findPlayer pid (players w) = None
      \<and> placeBet prices now txId txHash pid uname amount cur w = (Inr (d, bal), w')"
  then have none: "findPlayer pid (players w) = None"
    and ok: "placeBet prices now txId txHash pid uname amount cur w = (Inr (d, bal), w')"
    by simp_all
  have "usd bal = 1000 - amount" "btc bal = 0" "eth bal = 0"
    using placeBet_success(4,5,6) [OF ok] none by (simp_all add: availableUsd_def newPlayer_def)
  then show bal: "bal = \<lparr>btc = 0, eth = 0, usd = 1000 - amount\<rparr>"
    by (cases bal) simp
  show "\<exists>p'. findPlayer pid (players w') = Some p' \<and> wallet p' = bal"
    by (rule placeBet_success(3) [OF ok])
  from placeBet_success(7) [OF ok] bal
  show "\<exists>t. transactions w' = transactions w @ [t]
               \<and> balanceBefore t = \<lparr>btc = 0, eth = 0, usd = 1000\<rparr>"
    by auto
qed

text \<open>
  A player \<open>p9\<close> created by the endpoint, and a first wager of 10 by the unknown player
  \<open>p2\<close>.
\<close>

theorem new_player_wallet_witness:
  "fst (walletCreate 1700000000100 ''p9'' ''zed'' (players (scenarioWorld Waiting 100)))
     = Inr (newPlayer ''p9'' ''zed'' 1700000000100)
   \<and> wallet (newPlayer ''p9'' ''zed'' 1700000000100) = \<lparr>btc = 0, eth = 0, usd = 1000\<rparr>
   \<and> findPlayer ''p2'' (players (scenarioWorld Waiting 100)) = None
   \<and> fst (placeBet scenarioPrices 1700000000500 ''t1'' ''h1'' ''p2'' ''bob'' 10 ''btc''
            (scenarioWorld Waiting 100))
     = Inr (\<lparr>betData.playerId = ''p2'', betData.username = ''bob'', betData.usdAmount = 10,
             betData.cryptoAmount = 1 / 1000, betData.currency = ''btc'',
             betData.priceAtTime = 10000, betTime = 1700000000500\<rparr>,
            \<lparr>btc = 0, eth = 0, usd = 990\<rparr>)"
  using new_player_wallet [of "''p9''" "''zed''" 1700000000100 "players (scenarioWorld Waiting 100)"
      "newPlayer ''p9'' ''zed'' 1700000000100"
      "snd (walletCreate 1700000000100 ''p9'' ''zed'' (players (scenarioWorld Waiting 100)))"
      "scenarioWorld Waiting 100"]
  by (simp add: scenario_defs walletCreate_def)


end
